theory Spec2Isabelle
  imports Main "HOL-Library.Word"
begin

unbundle bit_operations_syntax

section \<open>Data model\<close>

text \<open>
  Times are JavaScript \<open>Date\<close> values, compared through \<open>valueOf\<close>: integer
  milliseconds since the epoch. Every \<open>new Date()\<close> of the source is one clock reading
  and is an argument of its own in the model, since two readings taken in one call need
  not agree.
\<close>

type_synonym time = int

type_synonym byte = "8 word"

text \<open>
  Modelled from the spec: the user row (\<open>models/User.js\<close> is absent) carries the
  attributes the specification lists: id, unique email, unique username, display name,
  avatar URL, preferences blob, active flag, last-login timestamp. The preferences blob
  has the shape \<open>register\<close> gives it.
\<close>

record additional_info =
  gender :: string
  food_type :: string
  place_value :: string
  saved_places :: "int list"
  saved_posts :: "int list"
  saved_articles :: "int list"
  language :: string
  theme :: string
  push_notification :: bool

record user =
  user_id :: int
  email :: string
  username :: string
  user_name :: string
  imageUrl :: string
  additionalInfo :: additional_info
  active :: bool
  last_login_at :: "time option"

text \<open>
  A row of \<open>personal_access_tokens\<close>, as \<open>PersonalAccessToken.init\<close> declares it, with the
  \<open>created_at\<close> column that \<open>timestamps: true\<close> adds. The \<open>updated_at\<close> column, which no
  operation of the repository reads, is left out.
\<close>

record personal_access_token =
  pat_id :: int
  tokenable_type :: string
  tokenable_id :: int
  pat_name :: string
  token :: string
  abilities :: "string option"
  last_used_at :: "time option"
  expires_at :: "time option"
  created_at :: time

text \<open>The two tables, each with the counter of its auto-increment key.\<close>

record store =
  users :: "user list"
  tokens :: "personal_access_token list"
  next_user_id :: int
  next_token_id :: int

text \<open>
  The part of the Express request the handlers read and write: the \<open>Authorization\<close>
  header and the three properties \<open>authenticate\<close> attaches.
\<close>

record request =
  authorization :: "string option"
  req_user :: "user option"
  req_token :: "string option"
  req_tokenRecord :: "personal_access_token option"

datatype payload =
    NoData
  | ErrorList "string list"
  | SessionData bool time
  | UserData user
  | LoginData user string string
  | LogoutData time

record response =
  status :: nat
  success :: bool
  message :: string
  data :: payload

text \<open>A middleware either answers the request itself or calls \<open>next()\<close>.\<close>

datatype outcome = Reject response | Next

definition failure :: "nat \<Rightarrow> string \<Rightarrow> response" where
  "failure code msg = \<lparr>status = code, success = False, message = msg, data = NoData\<rparr>"

section \<open>Strings, buffers and dates of the runtime\<close>

definition startsWith :: "string \<Rightarrow> string \<Rightarrow> bool" where
  "startsWith s p = (take (length p) s = p)"

definition substring :: "string \<Rightarrow> nat \<Rightarrow> string" where
  "substring s n = drop n s"

text \<open>\<open>String.prototype.toLowerCase\<close> on ASCII text: only \<open>A\<close> to \<open>Z\<close> change.\<close>

definition lower_char :: "char \<Rightarrow> char" where
  "lower_char c =
     (let n = (of_char c :: nat) in if 65 \<le> n \<and> n \<le> 90 then char_of (n + 32) else c)"

definition toLowerCase :: "string \<Rightarrow> string" where
  "toLowerCase s = map lower_char s"




text \<open>
  \<open>buf.toString('hex')\<close>: two lower-case hexadecimal digits for each byte, the high
  half first. Both indices into the digit table are below 16.
\<close>

definition hex_digits :: string where
  "hex_digits = ''0123456789abcdef''"

definition hex_digit :: "nat \<Rightarrow> char" where
  "hex_digit n = hex_digits ! n"

definition hex_byte :: "byte \<Rightarrow> string" where
  "hex_byte b = [hex_digit (unat b div 16), hex_digit (unat b mod 16)]"

definition toString_hex :: "byte list \<Rightarrow> string" where
  "toString_hex bs = concat (map hex_byte bs)"

definition is_hex_char :: "char \<Rightarrow> bool" where
  "is_hex_char c = (c \<in> set hex_digits)"

text \<open>\<open>abilities.join(',')\<close>.\<close>

fun join :: "string \<Rightarrow> string list \<Rightarrow> string" where
  "join sep [] = []"
| "join sep [x] = x"
| "join sep (x # y # ys) = x @ sep @ join sep (y # ys)"

text \<open>
  The zone of the server process: the offset of local time from UTC, in milliseconds,
  as a function of a UTC instant (\<open>LocalTZA(t, true)\<close> of ECMAScript) and of a local
  time value (\<open>LocalTZA(t, false)\<close>).
\<close>

record timezone =
  tza_of_utc :: "time \<Rightarrow> time"
  tza_of_local :: "time \<Rightarrow> time"

definition msPerDay :: time where
  "msPerDay = 86400000"

definition LocalTime :: "timezone \<Rightarrow> time \<Rightarrow> time" where
  "LocalTime tz t = t + tza_of_utc tz t"

definition UTC :: "timezone \<Rightarrow> time \<Rightarrow> time" where
  "UTC tz t = t - tza_of_local tz t"

text \<open>
  \<open>d.setDate(d.getDate() + 1)\<close>: \<open>setDate\<close> rebuilds the local time value from the
  local year and month, the given day of the month and the local time within the day.
  With the day of the month one above the current one (a day past the end of the month
  rolls into the next month) that is the local time value one calendar day later, which is
  then read back as an instant.
\<close>

definition setDate_next_day :: "timezone \<Rightarrow> time \<Rightarrow> time" where
  "setDate_next_day tz t = UTC tz (LocalTime tz t + msPerDay)"

definition fixed_offset :: "timezone \<Rightarrow> time \<Rightarrow> bool" where
  "fixed_offset tz c = (tza_of_utc tz = (\<lambda>_. c) \<and> tza_of_local tz = (\<lambda>_. c))"

definition utc_zone :: timezone where
  "utc_zone = \<lparr>tza_of_utc = (\<lambda>_. 0), tza_of_local = (\<lambda>_. 0)\<rparr>"

section \<open>The tables\<close>

text \<open>
  The value of \<open>tokenable_type\<close> every query and \<open>createToken\<close> use: \<open>App\<close>, \<open>Models\<close>
  and \<open>User\<close>, separated by one backslash each (character 0x5C).
\<close>

definition user_type :: string where
  "user_type = ''App'' @ [CHR 0x5C] @ ''Models'' @ [CHR 0x5C] @ ''User''"

text \<open>\<open>User.findByPk(id)\<close>.\<close>

definition findByPk :: "store \<Rightarrow> int \<Rightarrow> user option" where
  "findByPk s k = find (\<lambda>u. user_id u = k) (users s)"

text \<open>\<open>PersonalAccessToken.findOne\<close> on the token string and the user type.\<close>

definition findOne_token :: "store \<Rightarrow> string \<Rightarrow> personal_access_token option" where
  "findOne_token s tok =
     find (\<lambda>r. token r = tok \<and> tokenable_type r = user_type) (tokens s)"

text \<open>
  \<open>tokenRecord.update({last_used_at: t})\<close>: the row with the record's primary key is
  written, and the record in memory carries the new value.
\<close>

definition update_last_used :: "store \<Rightarrow> personal_access_token \<Rightarrow> time \<Rightarrow> personal_access_token \<times> store" where
  "update_last_used s r t =
     (r\<lparr>last_used_at := Some t\<rparr>,
      s\<lparr>tokens := map (\<lambda>x. if pat_id x = pat_id r then x\<lparr>last_used_at := Some t\<rparr> else x)
                       (tokens s)\<rparr>)"

text \<open>
  Modelled from the spec: \<open>User.isActive\<close> (\<open>models/User.js\<close> is absent) reads the
  active flag of the user.
\<close>

definition isActive :: "user \<Rightarrow> bool" where
  "isActive u = active u"

section \<open>The authenticate middleware\<close>

text \<open>
  The payload of a verified JWT, as far as \<open>authenticate\<close> reads it. \<open>utils/jwt\<close> is
  absent: \<open>verifyToken\<close> is a parameter, \<open>None\<close> when it throws.
\<close>

record decoded =
  jwt_type :: string
  jwt_id :: "int option"

definition attach :: "request \<Rightarrow> user \<Rightarrow> string \<Rightarrow> personal_access_token \<Rightarrow> request" where
  "attach req u tok r = req\<lparr>req_user := Some u, req_token := Some tok, req_tokenRecord := Some r\<rparr>"

text \<open>
  The inner \<open>try\<close> of \<open>authenticate\<close>: when the token string verifies as a JWT, its type
  must be \<open>access\<close> and its \<open>id\<close> must be the user's; when verification throws, the inner
  \<open>catch\<close> only logs. The result is the response of an early return, if any.
\<close>

definition jwt_structure_check :: "(string \<Rightarrow> decoded option) \<Rightarrow> string \<Rightarrow> user \<Rightarrow> response option" where
  "jwt_structure_check verifyToken tok u =
     (case verifyToken tok of
        None \<Rightarrow> None
      | Some d \<Rightarrow>
          if jwt_type d \<noteq> ''access'' then Some (failure 401 ''Token type tidak valid.'')
          else if jwt_id d \<noteq> Some (user_id u) then
            Some (failure 401 ''Token user mismatch. Akses ditolak.'')
          else None)"

text \<open>
  \<open>authenticate\<close>. \<open>t_check\<close> is the clock reading of the expiry check, \<open>t_used1\<close> and
  \<open>t_used2\<close> those of the two updates of \<open>last_used_at\<close>. An empty header string is falsy,
  like a missing one.
\<close>

definition authenticate ::
  "(string \<Rightarrow> decoded option) \<Rightarrow> time \<Rightarrow> time \<Rightarrow> time \<Rightarrow> store \<Rightarrow> request
     \<Rightarrow> outcome \<times> request \<times> store" where
  "authenticate verifyToken t_check t_used1 t_used2 s req =
     (case authorization req of
        None \<Rightarrow> (Reject (failure 401 ''Token tidak ditemukan. Akses ditolak.''), req, s)
      | Some authHeader \<Rightarrow>
          if authHeader = [] then
            (Reject (failure 401 ''Token tidak ditemukan. Akses ditolak.''), req, s)
          else if \<not> startsWith authHeader ''Bearer '' then
            (Reject (failure 401 ''Format token tidak valid. Gunakan Bearer token.''), req, s)
          else
            let tok = substring authHeader 7 in
            if tok = [] then
              (Reject (failure 401 ''Token tidak ditemukan. Akses ditolak.''), req, s)
            else
              (case findOne_token s tok of
                 None \<Rightarrow>
                   (Reject (failure 401 ''Token tidak ditemukan di database. Akses ditolak.''), req, s)
               | Some tokenRecord \<Rightarrow>
                   (case findByPk s (tokenable_id tokenRecord) of
                      None \<Rightarrow> (Reject (failure 401 ''User tidak ditemukan. Akses ditolak.''), req, s)
                    | Some u \<Rightarrow>
                        if (case expires_at tokenRecord of None \<Rightarrow> False | Some e \<Rightarrow> t_check > e) then
                          (Reject (failure 401 ''Token sudah expired. Akses ditolak.''), req, s)
                        else
                          let (tokenRecord1, s1) = update_last_used s tokenRecord t_used1 in
                          (case jwt_structure_check verifyToken tok u of
                             Some resp \<Rightarrow> (Reject resp, req, s1)
                           | None \<Rightarrow>
                               if \<not> isActive u then
                                 (Reject (failure 401 ''Akun telah dinonaktifkan. Silakan hubungi admin.''),
                                  req, s1)
                               else
                                 let (tokenRecord2, s2) = update_last_used s1 tokenRecord1 t_used2 in
                                 (Next, attach req u tok tokenRecord2, s2)))))"

section \<open>The registration gate\<close>


section \<open>The token model\<close>

text \<open>\<open>isValid\<close>, at the clock reading \<open>now\<close>.\<close>

definition isValid :: "time \<Rightarrow> personal_access_token \<Rightarrow> bool" where
  "isValid now r = (case expires_at r of None \<Rightarrow> True | Some e \<Rightarrow> now < e)"

text \<open>
  \<open>hasActiveSession\<close>: the query compares \<open>expires_at\<close> with the clock reading by
  \<open>Op.gt\<close>; a row whose \<open>expires_at\<close> is NULL does not satisfy an SQL comparison.
\<close>

definition hasActiveSession :: "time \<Rightarrow> store \<Rightarrow> int \<Rightarrow> personal_access_token option" where
  "hasActiveSession now s userId =
     find (\<lambda>r. tokenable_id r = userId \<and> tokenable_type r = user_type \<and>
                (case expires_at r of None \<Rightarrow> False | Some e \<Rightarrow> e > now))
          (tokens s)"

datatype error = SequelizeUniqueConstraintError

text \<open>
  \<open>createToken\<close>. \<open>randomBytes\<close> is \<open>crypto.randomBytes\<close>; \<open>t_expiry\<close> is the clock reading
  that \<open>expiresAt\<close> starts from, \<open>t_used\<close> the one stored as \<open>last_used_at\<close>, and \<open>t_created\<close>
  the one the ORM stores as \<open>created_at\<close>. The \<open>token\<close> column is declared unique, so the
  insertion of a string already present fails.
\<close>

definition createToken ::
  "timezone \<Rightarrow> (nat \<Rightarrow> byte list) \<Rightarrow> time \<Rightarrow> time \<Rightarrow> time \<Rightarrow> store \<Rightarrow> user \<Rightarrow> string \<Rightarrow> string list
     \<Rightarrow> error + personal_access_token \<times> store" where
  "createToken tz randomBytes t_expiry t_used t_created s u name' abilities' =
     (let tok = toString_hex (randomBytes 32);
          expiresAt = setDate_next_day tz t_expiry;
          row = \<lparr>pat_id = next_token_id s,
                 tokenable_type = user_type,
                 tokenable_id = user_id u,
                 pat_name = name',
                 token = tok,
                 abilities = Some (join '','' abilities'),
                 last_used_at = Some t_used,
                 expires_at = Some expiresAt,
                 created_at = t_created\<rparr>
      in if tok \<in> set (map token (tokens s)) then Inl SequelizeUniqueConstraintError
         else Inr (row, s\<lparr>tokens := tokens s @ [row], next_token_id := next_token_id s + 1\<rparr>))"

text \<open>\<open>PersonalAccessToken.destroy({where: {token}})\<close>.\<close>

definition destroy_token :: "store \<Rightarrow> string \<Rightarrow> store" where
  "destroy_token s tok = s\<lparr>tokens := filter (\<lambda>r. token r \<noteq> tok) (tokens s)\<rparr>"

section \<open>The auth controller\<close>

text \<open>A body value \<open>v\<close> in \<open>v || d\<close>: undefined and the empty string give the default.\<close>

definition or_default :: "string option \<Rightarrow> string \<Rightarrow> string" where
  "or_default v d = (case v of None \<Rightarrow> d | Some x \<Rightarrow> if x = [] then d else x)"

record register_body =
  reg_name :: string
  reg_username :: string
  reg_email :: string
  reg_imageUrl :: "string option"
  reg_gender :: "string option"
  reg_place_value :: "string option"
  reg_food_type :: "string option"

record login_body =
  login_email :: string
  login_name :: "string option"
  login_imageUrl :: "string option"

text \<open>
  Modelled from the spec: \<open>User.getProfile\<close> (\<open>models/User.js\<close> is absent) returns the
  public profile fields of the user; the user row of this model holds no others.
\<close>

definition getProfile :: "user \<Rightarrow> user" where
  "getProfile u = u"

text \<open>
  Modelled from the spec: \<open>User.create\<close> (\<open>models/User.js\<close> is absent) inserts one user
  row with the next id and the given fields; a new account is active and has never
  logged in.
\<close>

definition User_create :: "store \<Rightarrow> string \<Rightarrow> string \<Rightarrow> string \<Rightarrow> string \<Rightarrow> additional_info \<Rightarrow> user \<times> store" where
  "User_create s name' username' email' imageUrl' info =
     (let u = \<lparr>user_id = next_user_id s, email = email', username = username',
                user_name = name', imageUrl = imageUrl', additionalInfo = info,
                active = True, last_login_at = None\<rparr>
      in (u, s\<lparr>users := users s @ [u], next_user_id := next_user_id s + 1\<rparr>))"

text \<open>
  \<open>register\<close>. \<open>errors\<close> is \<open>validationResult(req).array()\<close>, computed by validators that
  are not among the sources.
\<close>

definition register :: "string list \<Rightarrow> store \<Rightarrow> register_body \<Rightarrow> response \<times> store" where
  "register errors s body =
     (if errors \<noteq> [] then
        (\<lparr>status = 400, success = False, message = ''Validation failed'', data = ErrorList errors\<rparr>, s)
      else
        (case find (\<lambda>u. email u = toLowerCase (reg_email body) \<or> username u = reg_username body)
                   (users s) of
           Some existingUser \<Rightarrow>
             (failure 409 (if email existingUser = toLowerCase (reg_email body)
                           then ''Email sudah terdaftar'' else ''Username sudah digunakan''), s)
         | None \<Rightarrow>
             let (newUser, s1) =
                   User_create s (reg_name body) (reg_username body) (toLowerCase (reg_email body))
                     (or_default (reg_imageUrl body) ''https://via.placeholder.com/150'')
                     \<lparr>gender = or_default (reg_gender body) [],
                      food_type = or_default (reg_food_type body) [],
                      place_value = or_default (reg_place_value body) [],
                      saved_places = [], saved_posts = [], saved_articles = [],
                      language = ''id'', theme = ''light'', push_notification = True\<rparr>
             in (\<lparr>status = 201, success = True, message = ''User berhasil didaftarkan'',
                  data = UserData (getProfile newUser)\<rparr>, s1)))"

text \<open>
  \<open>user.save()\<close> after the two conditional assignments of \<open>login\<close>: the row with the
  user's primary key takes the name and the avatar of the record in memory.
\<close>

definition save_user :: "store \<Rightarrow> user \<Rightarrow> store" where
  "save_user s u =
     s\<lparr>users := map (\<lambda>x. if user_id x = user_id u
                          then x\<lparr>user_name := user_name u, imageUrl := imageUrl u\<rparr> else x)
                    (users s)\<rparr>"

text \<open>
  Modelled from the spec: \<open>User.updateLastLogin\<close> (\<open>models/User.js\<close> is absent) stamps the
  last-login timestamp of the user with the current time and persists it.
\<close>

definition updateLastLogin :: "time \<Rightarrow> store \<Rightarrow> user \<Rightarrow> user \<times> store" where
  "updateLastLogin now s u =
     (u\<lparr>last_login_at := Some now\<rparr>,
      s\<lparr>users := map (\<lambda>x. if user_id x = user_id u then x\<lparr>last_login_at := Some now\<rparr> else x)
                     (users s)\<rparr>)"

text \<open>
  What \<open>login\<close> takes from outside the two tables: \<open>generateAccessToken\<close> of the absent
  \<open>utils/jwt\<close>, the zone and the random source of \<open>createToken\<close>, and one clock reading
  for each place that reads the clock.
\<close>

record login_env =
  generateAccessToken :: "user \<Rightarrow> string"
  zone :: timezone
  random_source :: "nat \<Rightarrow> byte list"
  now_login :: time
  now_session :: time
  now_expiry :: time
  now_used :: time
  now_created :: time

definition login :: "login_env \<Rightarrow> string list \<Rightarrow> store \<Rightarrow> login_body \<Rightarrow> response \<times> store" where
  "login env errors s body =
     (if errors \<noteq> [] then
        (\<lparr>status = 400, success = False, message = ''Validation failed'', data = ErrorList errors\<rparr>, s)
      else
        (case find (\<lambda>u. email u = toLowerCase (login_email body)) (users s) of
           None \<Rightarrow> (failure 404 ''User tidak ditemukan. Silakan registrasi terlebih dahulu.'', s)
         | Some user0 \<Rightarrow>
             let user1 = (case login_name body of
                            Some n \<Rightarrow> if n \<noteq> [] \<and> n \<noteq> user_name user0
                                      then user0\<lparr>user_name := n\<rparr> else user0
                          | None \<Rightarrow> user0);
                 user2 = (case login_imageUrl body of
                            Some i \<Rightarrow> if i \<noteq> [] \<and> i \<noteq> imageUrl user1
                                      then user1\<lparr>imageUrl := i\<rparr> else user1
                          | None \<Rightarrow> user1);
                 s1 = save_user s user2
             in
             if \<not> isActive user2 then (failure 403 ''Akun Anda telah dinonaktifkan'', s1)
             else
               let (user3, s2) = updateLastLogin (now_login env) s1 user2 in
               (case hasActiveSession (now_session env) s2 (user_id user3) of
                  Some existingSession \<Rightarrow>
                    (\<lparr>status = 409, success = False,
                      message = ''Anda sudah login di perangkat lain. Silakan logout terlebih dahulu atau tunggu hingga token expired (1 hari).'',
                      data = SessionData True (created_at existingSession)\<rparr>, s2)
                | None \<Rightarrow>
                    let accessToken = generateAccessToken env user3 in
                    (case createToken (zone env) (random_source env) (now_expiry env) (now_used env)
                            (now_created env) s2 user3 ''API Login'' [''*''] of
                       Inl e \<Rightarrow> (failure 500 ''Terjadi kesalahan server'', s2)
                     | Inr (tokenRecord, s3) \<Rightarrow>
                         (\<lparr>status = 200, success = True, message = ''Login berhasil'',
                           data = LoginData (getProfile user3) (token tokenRecord) accessToken\<rparr>,
                          s3)))))"

text \<open>
  \<open>logout\<close>; \<open>t_out\<close> is the clock reading of \<open>loggedOutAt\<close>. Reading \<open>user.id\<close> for the log
  line throws when no user is attached, after the deletion was made.
\<close>

definition logout :: "time \<Rightarrow> store \<Rightarrow> request \<Rightarrow> response \<times> store" where
  "logout t_out s req =
     (let s1 = (case req_token req of
                  None \<Rightarrow> s
                | Some tok \<Rightarrow> if tok \<noteq> [] then destroy_token s tok else s)
      in case req_user req of
           None \<Rightarrow> (failure 500 ''Terjadi kesalahan saat logout'', s1)
         | Some u \<Rightarrow>
             (\<lparr>status = 200, success = True, message = ''Logout berhasil!'', data = LogoutData t_out\<rparr>,
              s1))"

section \<open>Outcomes and concrete requests\<close>

text \<open>A middleware outcome that is a failure response with the given status code.\<close>

definition rejected_with :: "nat \<Rightarrow> outcome \<Rightarrow> bool" where
  "rejected_with code out = (case out of Reject r \<Rightarrow> status r = code \<and> \<not> success r | Next \<Rightarrow> False)"

text \<open>A request with nothing attached yet, carrying a bearer credential or no header.\<close>

definition bearer :: "string \<Rightarrow> request" where
  "bearer tok = \<lparr>authorization = Some (''Bearer '' @ tok), req_user = None, req_token = None, req_tokenRecord = None\<rparr>"

definition no_header :: request where
  "no_header = \<lparr>authorization = None, req_user = None, req_token = None, req_tokenRecord = None\<rparr>"

section \<open>Concrete users, rows and environments\<close>

text \<open>
  The inputs at which the theorems below are evaluated: two users, their session rows, a
  store holding them, a \<open>verifyToken\<close> that throws on every string (as JWT verification
  does on the opaque tokens of the store), a random source that returns the byte 0xab only, and
  the environment and bodies of a login and a registration.
\<close>

definition default_info :: additional_info where
  "default_info = \<lparr>gender = [], food_type = [], place_value = [], saved_places = [],
     saved_posts = [], saved_articles = [], language = ''id'', theme = ''light'',
     push_notification = True\<rparr>"

definition alice :: user where
  "alice = \<lparr>user_id = 1, email = ''a@x.com'', username = ''alice'', user_name = ''Alice'',
     imageUrl = ''https://via.placeholder.com/150'', additionalInfo = default_info,
     active = True, last_login_at = None\<rparr>"

definition session_row :: "time option \<Rightarrow> personal_access_token" where
  "session_row e = \<lparr>pat_id = 1, tokenable_type = user_type, tokenable_id = 1,
     pat_name = ''API Login'', token = ''abc'', abilities = Some ''*'', last_used_at = Some 0,
     expires_at = e, created_at = 0\<rparr>"

definition store_of :: "user \<Rightarrow> personal_access_token list \<Rightarrow> store" where
  "store_of u rows = \<lparr>users = [u], tokens = rows, next_user_id = 2, next_token_id = 2\<rparr>"

definition no_jwt :: "string \<Rightarrow> decoded option" where
  "no_jwt t = None"

definition bob :: user where
  "bob = \<lparr>user_id = 2, email = ''b@x.com'', username = ''bob'', user_name = ''Bob'',
     imageUrl = ''https://via.placeholder.com/150'', additionalInfo = default_info,
     active = True, last_login_at = None\<rparr>"

definition bob_row :: personal_access_token where
  "bob_row = \<lparr>pat_id = 2, tokenable_type = user_type, tokenable_id = 2,
     pat_name = ''API Login'', token = ''xyz'', abilities = Some ''*'', last_used_at = Some 7,
     expires_at = Some 200, created_at = 5\<rparr>"

definition two_sessions :: store where
  "two_sessions = \<lparr>users = [alice, bob], tokens = [session_row (Some 100), bob_row],
     next_user_id = 3, next_token_id = 3\<rparr>"

definition fixed_bytes :: "nat \<Rightarrow> byte list" where
  "fixed_bytes n = replicate n 0xab"

definition fixed_token :: string where
  "fixed_token = ''abababababababababababababababababababababababababababababababab''"

definition login_env0 :: login_env where
  "login_env0 = \<lparr>generateAccessToken = (\<lambda>u. ''jwt-of-'' @ username u), zone = utc_zone,
     random_source = fixed_bytes, now_login = 50, now_session = 51, now_expiry = 52,
     now_used = 53, now_created = 54\<rparr>"

definition alice_login :: login_body where
  "alice_login = \<lparr>login_email = ''A@x.com'', login_name = Some ''Alicia'', login_imageUrl = None\<rparr>"

definition carol_register :: register_body where
  "carol_register = \<lparr>reg_name = ''Carol'', reg_username = ''carol'', reg_email = ''Carol@X.com'',
     reg_imageUrl = None, reg_gender = None, reg_place_value = None, reg_food_type = None\<rparr>"

section \<open>Properties of the runtime functions\<close>









lemma lower_char_idem: "lower_char (lower_char c) = lower_char c"
  by (auto simp: lower_char_def Let_def)

lemma toLowerCase_idem: "toLowerCase (toLowerCase s) = toLowerCase s"
  by (simp add: toLowerCase_def lower_char_idem)

lemma hex_len: "length (toString_hex bs) = 2 * length bs"
  by (induction bs) (simp_all add: toString_hex_def hex_byte_def)

lemma length_hex_digits: "length hex_digits = 16"
  by (simp add: hex_digits_def)

lemma hex_digit_is_hex: "n < 16 \<Longrightarrow> is_hex_char (hex_digit n)"
  unfolding is_hex_char_def hex_digit_def by (rule nth_mem) (simp add: length_hex_digits)

lemma hex_byte_is_hex: "\<forall>c \<in> set (hex_byte b). is_hex_char c"
proof -
  have "unat b < 2 ^ 8" using unsigned_less[of b] by simp
  then have "unat b div 16 < 16" by simp
  moreover have "unat b mod 16 < 16" by simp
  ultimately show ?thesis by (simp add: hex_byte_def hex_digit_is_hex)
qed

lemma toString_hex_chars: "\<forall>c \<in> set (toString_hex bs). is_hex_char c"
  by (auto simp: toString_hex_def hex_byte_is_hex)

section \<open>The registration gate\<close>

lemma startsWith_Bearer: "startsWith (''Bearer '' @ k) ''Bearer ''"
  by (simp add: startsWith_def)

lemma substring_Bearer: "substring (''Bearer '' @ k) 7 = k"
  by (simp add: substring_def)

lemma bearer_split: "startsWith h ''Bearer '' \<Longrightarrow> h = ''Bearer '' @ substring h 7"
proof -
  assume "startsWith h ''Bearer ''"
  then have "take (length ''Bearer '') h = ''Bearer ''" by (simp only: startsWith_def)
  moreover have "length ''Bearer '' = 7" by simp
  ultimately have "take 7 h = ''Bearer ''" by (simp only:)
  then have "take 7 h @ drop 7 h = ''Bearer '' @ drop 7 h" by (simp only:)
  then show ?thesis by (simp only: substring_def append_take_drop_id)
qed

lemma bearer_nonempty: "''Bearer '' @ k \<noteq> []"
  by simp





section \<open>Token validation\<close>

lemmas fixtures = default_info_def alice_def session_row_def store_of_def no_jwt_def
  bob_def bob_row_def two_sessions_def bearer_def no_header_def user_type_def

lemma authenticate_bearer:
  assumes "authorization req = Some (''Bearer '' @ tok)" and "tok \<noteq> []"
  shows "authenticate vt t_check t1 t2 s req =
     (case findOne_token s tok of
        None \<Rightarrow> (Reject (failure 401 ''Token tidak ditemukan di database. Akses ditolak.''), req, s)
      | Some tokenRecord \<Rightarrow>
          (case findByPk s (tokenable_id tokenRecord) of
             None \<Rightarrow> (Reject (failure 401 ''User tidak ditemukan. Akses ditolak.''), req, s)
           | Some u \<Rightarrow>
               if (case expires_at tokenRecord of None \<Rightarrow> False | Some e \<Rightarrow> t_check > e) then
                 (Reject (failure 401 ''Token sudah expired. Akses ditolak.''), req, s)
               else
                 let (tokenRecord1, s1) = update_last_used s tokenRecord t1 in
                 (case jwt_structure_check vt tok u of
                    Some resp \<Rightarrow> (Reject resp, req, s1)
                  | None \<Rightarrow>
                      if \<not> isActive u then
                        (Reject (failure 401 ''Akun telah dinonaktifkan. Silakan hubungi admin.''),
                         req, s1)
                      else
                        let (tokenRecord2, s2) = update_last_used s1 tokenRecord1 t2 in
                        (Next, attach req u tok tokenRecord2, s2))))"
  using assms
  by (simp only: authenticate_def option.case startsWith_Bearer substring_Bearer
      bearer_nonempty Let_def not_True_eq_False if_False)

lemma authenticate_empty:
  assumes "authorization req = Some (''Bearer '' @ [])"
  shows "authenticate vt t_check t1 t2 s req =
     (Reject (failure 401 ''Token tidak ditemukan. Akses ditolak.''), req, s)"
  using assms by (simp add: authenticate_def startsWith_def substring_def)

lemma jwt_structure_check_401:
  "jwt_structure_check vt tok u = Some resp \<Longrightarrow> status resp = 401 \<and> \<not> success resp"
  by (auto simp: jwt_structure_check_def failure_def split: option.splits if_splits)

text \<open>
  What \<open>authenticate\<close> does with a bearer token at every clock reading other than the exact
  expiry instant of the stored row: it calls \<open>next\<close> if and only if the token string is not
  empty, a row of the user type with that string exists, its expiry is unset or later than
  the clock reading, its owning user exists and is active, and the JWT check of the inner
  \<open>try\<close> does not reject. On success the request carries the resolved user, the raw token
  string and the token record with its last-used time refreshed; otherwise the request is
  answered and is left as it was.
\<close>

lemma authenticate_attaches_iff_valid:
  assumes hdr: "authorization req = Some (''Bearer '' @ tok)"
    and instant: "\<forall>r. findOne_token s tok = Some r \<longrightarrow> expires_at r \<noteq> Some t_check"
  shows
   "((fst (authenticate vt t_check t1 t2 s req) = Next) =
       (tok \<noteq> [] \<and>
        (\<exists>r u. findOne_token s tok = Some r \<and> isValid t_check r \<and>
               findByPk s (tokenable_id r) = Some u \<and> isActive u \<and>
               jwt_structure_check vt tok u = None))) \<and>
    (fst (authenticate vt t_check t1 t2 s req) = Next \<longrightarrow>
       (\<exists>r u. findOne_token s tok = Some r \<and> findByPk s (tokenable_id r) = Some u \<and>
              fst (snd (authenticate vt t_check t1 t2 s req)) =
                req\<lparr>req_user := Some u, req_token := Some tok,
                    req_tokenRecord := Some (r\<lparr>last_used_at := Some t2\<rparr>)\<rparr>)) \<and>
    (fst (authenticate vt t_check t1 t2 s req) \<noteq> Next \<longrightarrow>
       rejected_with 401 (fst (authenticate vt t_check t1 t2 s req)) \<and>
       fst (snd (authenticate vt t_check t1 t2 s req)) = req)"
proof (cases "tok = []")
  case True
  with hdr have "authorization req = Some (''Bearer '' @ [])" by simp
  then have "authenticate vt t_check t1 t2 s req =
     (Reject (failure 401 ''Token tidak ditemukan. Akses ditolak.''), req, s)"
    by (rule authenticate_empty)
  with True show ?thesis by (simp add: rejected_with_def failure_def)
next
  case False
  note ab = authenticate_bearer [OF hdr False, of vt t_check t1 t2 s]
  show ?thesis
  proof (cases "findOne_token s tok")
    case None
    with ab False show ?thesis by (simp add: rejected_with_def failure_def)
  next
    case (Some r)
    with instant have ne: "expires_at r \<noteq> Some t_check" by simp
    show ?thesis
    proof (cases "findByPk s (tokenable_id r)")
      case None
      with ab Some False show ?thesis by (simp add: rejected_with_def failure_def)
    next
      case (Some u)
      note u = this
      show ?thesis
      proof (cases "jwt_structure_check vt tok u")
        case None
        with ab \<open>findOne_token s tok = Some r\<close> u False ne show ?thesis
          by (auto simp: rejected_with_def failure_def isValid_def update_last_used_def
              attach_def split: option.splits)
      next
        case (Some resp)
        then have "status resp = 401 \<and> \<not> success resp" by (rule jwt_structure_check_401)
        with ab \<open>findOne_token s tok = Some r\<close> u False ne Some show ?thesis
          by (auto simp: rejected_with_def failure_def isValid_def update_last_used_def
              attach_def split: option.splits)
      qed
    qed
  qed
qed

text \<open>
  Claim C1. The claim lets a request pass only if the expiry of its token is in the
  future. The stored row expires at 100 and the expiry check reads the clock at exactly
  100: the expiry is not in the future and \<open>isValid\<close> counts the row as expired, yet
  \<open>authenticate\<close> calls \<open>next\<close> with the user, the token string and the token record attached
  to the request.
\<close>

theorem authenticate_attaches_identity_at_expiry_instant:
  "expires_at (session_row (Some 100)) = Some 100 \<and>
   \<not> isValid 100 (session_row (Some 100)) \<and>
   authenticate no_jwt 100 101 102 (store_of alice [session_row (Some 100)]) (bearer ''abc'') =
     (Next,
      \<lparr>authorization = Some ''Bearer abc'', req_user = Some alice, req_token = Some ''abc'',
       req_tokenRecord = Some ((session_row (Some 100))\<lparr>last_used_at := Some 102\<rparr>)\<rparr>,
      store_of alice [(session_row (Some 100))\<lparr>last_used_at := Some 102\<rparr>])"
  by (simp add: fixtures findOne_token_def findByPk_def isValid_def isActive_def
      jwt_structure_check_def authenticate_def startsWith_def substring_def update_last_used_def
      attach_def Let_def)

section \<open>Logout\<close>

lemma authenticate_NextD:
  assumes "authenticate vt t_check t1 t2 s req = (Next, req', s1)"
  shows "\<exists>tok r u. authorization req = Some (''Bearer '' @ tok) \<and> tok \<noteq> [] \<and>
           findOne_token s tok = Some r \<and> findByPk s (tokenable_id r) = Some u \<and>
           req' = attach req u tok (r\<lparr>last_used_at := Some t2\<rparr>) \<and>
           s1 = s\<lparr>tokens := map (\<lambda>x. if pat_id x = pat_id r then x\<lparr>last_used_at := Some t2\<rparr> else x)
                               (tokens s)\<rparr>"
proof -
  from assms obtain h where h: "authorization req = Some h"
    by (cases "authorization req") (simp_all add: authenticate_def)
  from assms h have sw: "startsWith h ''Bearer ''"
    by (auto simp: authenticate_def split: if_splits)
  define tok where "tok = substring h 7"
  from sw have "h = ''Bearer '' @ tok" unfolding tok_def by (rule bearer_split)
  with h have hb: "authorization req = Some (''Bearer '' @ tok)" by (simp only:)
  have ne: "tok \<noteq> []"
  proof
    assume "tok = []"
    with hb have "authorization req = Some (''Bearer '' @ [])" by simp
    from authenticate_empty [OF this, of vt t_check t1 t2 s] assms show False by simp
  qed
  note ab = authenticate_bearer [OF hb ne, of vt t_check t1 t2 s]
  from ab assms obtain r where r: "findOne_token s tok = Some r"
    by (cases "findOne_token s tok") auto
  from ab assms r obtain u where u: "findByPk s (tokenable_id r) = Some u"
    by (cases "findByPk s (tokenable_id r)") auto
  have comp: "map (\<lambda>x. if pat_id x = pat_id r then x\<lparr>last_used_at := Some t2\<rparr> else x)
                (map (\<lambda>x. if pat_id x = pat_id r then x\<lparr>last_used_at := Some t1\<rparr> else x) xs) =
              map (\<lambda>x. if pat_id x = pat_id r then x\<lparr>last_used_at := Some t2\<rparr> else x) xs" for xs
    by (induction xs) auto
  from ab assms r u have "req' = attach req u tok (r\<lparr>last_used_at := Some t2\<rparr>) \<and>
      s1 = s\<lparr>tokens := map (\<lambda>x. if pat_id x = pat_id r then x\<lparr>last_used_at := Some t2\<rparr> else x)
                               (tokens s)\<rparr>"
    by (auto simp: update_last_used_def comp split: if_splits option.splits)
  with hb ne r u show ?thesis by blast
qed

lemma filter_token_remove1:
  "distinct (map token xs) \<Longrightarrow> r \<in> set xs \<Longrightarrow>
   filter (\<lambda>x. token x \<noteq> token r) xs = remove1 r xs"
proof (induction xs)
  case Nil
  then show ?case by simp
next
  case (Cons x xs)
  show ?case
  proof (cases "x = r")
    case True
    with Cons.prems have "token r \<notin> token ` set xs" by simp
    then have "\<forall>y \<in> set xs. token y \<noteq> token r" by (metis imageI)
    then have "filter (\<lambda>x. token x \<noteq> token r) xs = xs" by (simp add: filter_id_conv)
    with True show ?thesis by simp
  next
    case False
    with Cons.prems have "r \<in> set xs" by simp
    with Cons.prems have "token x \<noteq> token r" by auto
    with Cons False \<open>r \<in> set xs\<close> show ?thesis by simp
  qed
qed

lemma map_token_touch:
  "map token (map (\<lambda>x. if pat_id x = k then x\<lparr>last_used_at := v\<rparr> else x) xs) = map token xs"
  by (induction xs) simp_all

lemma find_Some_mem: "find P xs = Some x \<Longrightarrow> x \<in> set xs \<and> P x"
  by (induction xs) (auto split: if_splits)

text \<open>
  Claim C7. When \<open>authenticate\<close> has passed a request on, \<open>logout\<close> deletes the rows whose
  token string is the one that authenticated the call and keeps every other row, in
  order and unchanged; with token strings unique, as the schema declares, that is exactly
  the attached token record. The answer is the success response, and it is the same
  whatever store \<open>logout\<close> runs on, also one in which no row carries the string any more.
\<close>

theorem logout_deletes_exactly_the_authenticating_token:
  assumes auth: "authenticate vt t_check t1 t2 s req = (Next, req', s1)"
    and uniq: "distinct (map token (tokens s))"
  shows "\<exists>tok r. authorization req = Some (''Bearer '' @ tok) \<and>
           req_token req' = Some tok \<and> req_tokenRecord req' = Some r \<and> token r = tok \<and>
           r \<in> set (tokens s1) \<and>
           snd (logout t_out s1 req') = s1\<lparr>tokens := filter (\<lambda>x. token x \<noteq> tok) (tokens s1)\<rparr> \<and>
           tokens (snd (logout t_out s1 req')) = remove1 r (tokens s1) \<and>
           fst (logout t_out s1 req') =
             \<lparr>status = 200, success = True, message = ''Logout berhasil!'', data = LogoutData t_out\<rparr> \<and>
           (\<forall>sx. fst (logout t_out sx req') =
             \<lparr>status = 200, success = True, message = ''Logout berhasil!'', data = LogoutData t_out\<rparr>)"
proof -
  from authenticate_NextD [OF auth] obtain tok r u where
    hb: "authorization req = Some (''Bearer '' @ tok)" and ne: "tok \<noteq> []" and
    r: "findOne_token s tok = Some r" and
    req': "req' = attach req u tok (r\<lparr>last_used_at := Some t2\<rparr>)" and
    s1: "s1 = s\<lparr>tokens := map (\<lambda>x. if pat_id x = pat_id r then x\<lparr>last_used_at := Some t2\<rparr> else x)
                               (tokens s)\<rparr>"
    by blast
  let ?f = "\<lambda>x. if pat_id x = pat_id r then x\<lparr>last_used_at := Some t2\<rparr> else x"
  let ?r = "r\<lparr>last_used_at := Some t2\<rparr>"
  from r have mem: "r \<in> set (tokens s)" and tr: "token r = tok"
    using find_Some_mem [of _ "tokens s" r] by (auto simp: findOne_token_def)
  have ts1: "tokens s1 = map ?f (tokens s)" using s1 by simp
  have "map token (tokens s1) = map token (tokens s)"
    unfolding ts1 by (rule map_token_touch)
  with uniq have d1: "distinct (map token (tokens s1))" by (simp only:)
  from mem have "?f r \<in> ?f ` set (tokens s)" by (rule imageI)
  then have m1: "?r \<in> set (tokens s1)" unfolding ts1 by simp
  from tr have tr1: "token ?r = tok" by simp
  from filter_token_remove1 [OF d1 m1] tr1
  have fr: "filter (\<lambda>x. token x \<noteq> tok) (tokens s1) = remove1 ?r (tokens s1)" by simp
  have lo: "logout t_out sx req' =
      (\<lparr>status = 200, success = True, message = ''Logout berhasil!'', data = LogoutData t_out\<rparr>,
       sx\<lparr>tokens := filter (\<lambda>x. token x \<noteq> tok) (tokens sx)\<rparr>)" for sx
    using ne by (simp add: logout_def req' attach_def destroy_token_def)
  from hb tr1 m1 fr lo show ?thesis
    by (intro exI [of _ tok] exI [of _ ?r]) (simp add: req' attach_def)
qed

text \<open>With the sessions of two users in the store, the logout of the first deletes her row and leaves the row of the second.\<close>

theorem logout_deletes_exactly_the_authenticating_token_witness:
  "authenticate no_jwt 50 51 52 two_sessions (bearer ''abc'') =
     (Next,
      attach (bearer ''abc'') alice ''abc'' ((session_row (Some 100))\<lparr>last_used_at := Some 52\<rparr>),
      two_sessions\<lparr>tokens := [(session_row (Some 100))\<lparr>last_used_at := Some 52\<rparr>, bob_row]\<rparr>) \<and>
   distinct (map token (tokens two_sessions)) \<and>
   snd (logout 60 (two_sessions\<lparr>tokens := [(session_row (Some 100))\<lparr>last_used_at := Some 52\<rparr>, bob_row]\<rparr>)
          (attach (bearer ''abc'') alice ''abc'' ((session_row (Some 100))\<lparr>last_used_at := Some 52\<rparr>))) =
     two_sessions\<lparr>tokens := [bob_row]\<rparr> \<and>
   fst (logout 60 (two_sessions\<lparr>tokens := [bob_row]\<rparr>)
          (attach (bearer ''abc'') alice ''abc'' ((session_row (Some 100))\<lparr>last_used_at := Some 52\<rparr>))) =
     \<lparr>status = 200, success = True, message = ''Logout berhasil!'', data = LogoutData 60\<rparr>"
proof -
  have a: "authenticate no_jwt 50 51 52 two_sessions (bearer ''abc'') =
     (Next,
      attach (bearer ''abc'') alice ''abc'' ((session_row (Some 100))\<lparr>last_used_at := Some 52\<rparr>),
      two_sessions\<lparr>tokens := [(session_row (Some 100))\<lparr>last_used_at := Some 52\<rparr>, bob_row]\<rparr>)"
    by (simp add: fixtures findOne_token_def findByPk_def isValid_def isActive_def
      jwt_structure_check_def authenticate_def startsWith_def substring_def update_last_used_def Let_def attach_def)
  have d: "distinct (map token (tokens two_sessions))"
    by (simp add: fixtures)
  from logout_deletes_exactly_the_authenticating_token [OF a d, of 60] a d show ?thesis
    by (auto simp: fixtures attach_def)
qed

section \<open>Token issue\<close>

lemma setDate_next_day_fixed: "fixed_offset tz c \<Longrightarrow> setDate_next_day tz t = t + msPerDay"
  by (simp add: fixed_offset_def setDate_next_day_def UTC_def LocalTime_def)

text \<open>
  Claim C8, as amended. When the random source returns 32 bytes whose hexadecimal form is
  not yet a token of the store, \<open>createToken\<close> appends exactly one row, in any zone; its
  token is that string of 64 lower-case hexadecimal characters; its expiry is what
  \<open>setDate\<close> makes of the first clock reading, which in a zone of constant offset is that
  reading plus 86400000 ms (24 hours); and its last-used time is the second clock reading.
\<close>

theorem createToken_row:
  assumes len: "length (randomBytes 32) = 32"
    and fresh: "toString_hex (randomBytes 32) \<notin> set (map token (tokens s))"
  shows "\<exists>row. createToken tz randomBytes t_expiry t_used t_created s u name' abilities' =
            Inr (row, s\<lparr>tokens := tokens s @ [row], next_token_id := next_token_id s + 1\<rparr>) \<and>
          token row = toString_hex (randomBytes 32) \<and>
          length (token row) = 64 \<and> list_all is_hex_char (token row) \<and>
          expires_at row = Some (setDate_next_day tz t_expiry) \<and>
          (fixed_offset tz c \<longrightarrow> expires_at row = Some (t_expiry + 86400000)) \<and>
          last_used_at row = Some t_used \<and>
          tokenable_type row = user_type \<and> tokenable_id row = user_id u"
proof -
  have day: "fixed_offset tz c \<longrightarrow> setDate_next_day tz t_expiry = t_expiry + 86400000"
    by (simp add: setDate_next_day_fixed msPerDay_def)
  from fresh day show ?thesis
    by (simp add: createToken_def Let_def hex_len len list_all_iff toString_hex_chars)
qed

lemma fixed_bytes_hex: "toString_hex (fixed_bytes 32) =
  ''abababababababababababababababababababababababababababababababab''"
  by code_simp

lemma createToken_fixed:
  "createToken utc_zone fixed_bytes t1 t2 t3 s u n a =
     (if fixed_token \<in> set (map token (tokens s)) then Inl SequelizeUniqueConstraintError
      else Inr (\<lparr>pat_id = next_token_id s, tokenable_type = user_type, tokenable_id = user_id u,
                  pat_name = n, token = fixed_token, abilities = Some (join '','' a),
                  last_used_at = Some t2, expires_at = Some (t1 + 86400000), created_at = t3\<rparr>,
                s\<lparr>tokens := tokens s @
                     [\<lparr>pat_id = next_token_id s, tokenable_type = user_type, tokenable_id = user_id u,
                       pat_name = n, token = fixed_token, abilities = Some (join '','' a),
                       last_used_at = Some t2, expires_at = Some (t1 + 86400000), created_at = t3\<rparr>],
                   next_token_id := next_token_id s + 1\<rparr>))"
  by (simp only: createToken_def Let_def fixed_bytes_hex fixed_token_def [symmetric])
     (simp add: setDate_next_day_def UTC_def LocalTime_def utc_zone_def msPerDay_def)

lemma fixed_token_nonempty: "fixed_token \<noteq> []"
  by (simp add: fixed_token_def)

text \<open>A call with clock readings 1000 and 1001 in the UTC zone adds one row after the existing one.\<close>

theorem createToken_row_witness:
  "length (fixed_bytes 32) = 32 \<and>
   toString_hex (fixed_bytes 32) \<notin> set (map token (tokens (store_of alice [session_row (Some 100)]))) \<and>
   fixed_offset utc_zone 0 \<and>
   (case createToken utc_zone fixed_bytes 1000 1001 1002 (store_of alice [session_row (Some 100)])
           alice ''API Login'' [''*''] of
      Inl e \<Rightarrow> False
    | Inr (row, s') \<Rightarrow>
        tokens s' = [session_row (Some 100), row] \<and> length (token row) = 64 \<and>
        expires_at row = Some 86401000 \<and> last_used_at row = Some 1001)"
proof -
  have len: "length (fixed_bytes 32) = 32" by (simp add: fixed_bytes_def)
  have fresh: "toString_hex (fixed_bytes 32) \<notin>
      set (map token (tokens (store_of alice [session_row (Some 100)])))"
    by (simp add: fixed_bytes_hex store_of_def session_row_def)
  have zone: "fixed_offset utc_zone 0" by (simp add: fixed_offset_def utc_zone_def)
  from createToken_row [where randomBytes = fixed_bytes and tz = utc_zone and c = 0
      and s = "store_of alice [session_row (Some 100)]" and t_expiry = 1000 and t_used = 1001
      and t_created = 1002 and u = alice and name' = "''API Login''" and abilities' = "[''*'']",
      OF len fresh]
    len fresh zone
  show ?thesis by (auto simp: store_of_def)
qed

text \<open>
  Claim C8 as stated fails: with the first clock reading 1000 and the second 1001, no
  single issuance time is both the last-used time and 24 hours before the expiry.
\<close>

theorem createToken_two_clock_readings_counterexample:
  "(case createToken utc_zone fixed_bytes 1000 1001 1002 (store_of alice []) alice ''API Login'' [''*''] of
      Inl e \<Rightarrow> False
    | Inr (row, s') \<Rightarrow>
        expires_at row = Some (1000 + 86400000) \<and> last_used_at row \<noteq> Some 1000 \<and>
        last_used_at row = Some 1001 \<and> expires_at row \<noteq> Some (1001 + 86400000))"
  by (simp add: createToken_fixed store_of_def)

text \<open>
  Claim C3. A token issued at clock reading 1000 in a zone of constant offset expires at
  1000 + 86400000. The claim asks that validation fails from that instant on. At exactly
  that reading \<open>isValid\<close> and \<open>hasActiveSession\<close> count the token as expired, while
  \<open>authenticate\<close>, which tests \<open>now > expires_at\<close>, passes the request on.
\<close>

theorem authenticate_accepts_at_expiry_instant:
  "(case createToken utc_zone fixed_bytes 1000 1000 1000 (store_of alice []) alice ''API Login'' [''*''] of
      Inl e \<Rightarrow> False
    | Inr (row, s') \<Rightarrow>
        expires_at row = Some (1000 + 86400000) \<and>
        \<not> isValid (1000 + 86400000) row \<and>
        hasActiveSession (1000 + 86400000) s' (user_id alice) = None \<and>
        fst (authenticate no_jwt (1000 + 86400000) (1000 + 86400000) (1000 + 86400000) s'
               (bearer (token row))) = Next)"
proof -
  have hdr: "authorization (bearer fixed_token) = Some (''Bearer '' @ fixed_token)"
    by (simp add: bearer_def)
  show ?thesis
    by (simp add: createToken_fixed authenticate_bearer [OF hdr fixed_token_nonempty]
        store_of_def isValid_def hasActiveSession_def findOne_token_def findByPk_def alice_def
        isActive_def jwt_structure_check_def no_jwt_def update_last_used_def)
qed

section \<open>Registration\<close>

lemma find_None_all: "(find P xs = None) = (\<forall>x \<in> set xs. \<not> P x)"
  by (induction xs) auto

text \<open>
  Claim C4. For a registration that passed validation, whose email differs from every
  stored email when both are lower-cased and whose username is not stored yet,
  \<open>register\<close> answers 201 with the profile of the new user, appends exactly that one user
  row (with the lower-cased email) and leaves the token table as it was.
\<close>

theorem register_creates_one_user_no_token:
  assumes valid: "errors = []"
    and unique: "\<forall>u \<in> set (users s). toLowerCase (email u) \<noteq> toLowerCase (reg_email body) \<and>
                                   username u \<noteq> reg_username body"
  shows "\<exists>newUser.
           register errors s body =
             (\<lparr>status = 201, success = True, message = ''User berhasil didaftarkan'',
               data = UserData (getProfile newUser)\<rparr>,
              s\<lparr>users := users s @ [newUser], next_user_id := next_user_id s + 1\<rparr>) \<and>
           user_id newUser = next_user_id s \<and>
           email newUser = toLowerCase (reg_email body) \<and>
           username newUser = reg_username body \<and>
           user_name newUser = reg_name body \<and>
           length (users (snd (register errors s body))) = length (users s) + 1 \<and>
           tokens (snd (register errors s body)) = tokens s"
proof -
  have "\<forall>u \<in> set (users s). \<not> (email u = toLowerCase (reg_email body) \<or> username u = reg_username body)"
  proof
    fix u assume u: "u \<in> set (users s)"
    with unique have a: "toLowerCase (email u) \<noteq> toLowerCase (reg_email body)"
      and b: "username u \<noteq> reg_username body" by auto
    have "email u \<noteq> toLowerCase (reg_email body)"
    proof
      assume "email u = toLowerCase (reg_email body)"
      then have "toLowerCase (email u) = toLowerCase (reg_email body)"
        by (simp add: toLowerCase_idem)
      with a show False by simp
    qed
    with b show "\<not> (email u = toLowerCase (reg_email body) \<or> username u = reg_username body)"
      by simp
  qed
  then have "find (\<lambda>u. email u = toLowerCase (reg_email body) \<or> username u = reg_username body)
               (users s) = None"
    by (simp add: find_None_all)
  with valid show ?thesis
    unfolding register_def User_create_def Let_def
    by (intro exI [of _ "\<lparr>user_id = next_user_id s, email = toLowerCase (reg_email body),
          username = reg_username body, user_name = reg_name body,
          imageUrl = or_default (reg_imageUrl body) ''https://via.placeholder.com/150'',
          additionalInfo =
            \<lparr>gender = or_default (reg_gender body) [],
             food_type = or_default (reg_food_type body) [],
             place_value = or_default (reg_place_value body) [],
             saved_places = [], saved_posts = [], saved_articles = [],
             language = ''id'', theme = ''light'', push_notification = True\<rparr>,
          active = True, last_login_at = None\<rparr>"]) simp
qed

lemma lower_examples:
  "toLowerCase ''Carol@X.com'' = ''carol@x.com''"
  "toLowerCase ''a@x.com'' = ''a@x.com''"
  "toLowerCase ''A@x.com'' = ''a@x.com''"
  by code_simp+

text \<open>A registration with a new email in mixed case beside one existing user and her session.\<close>

theorem register_creates_one_user_no_token_witness:
  "toLowerCase (email alice) \<noteq> toLowerCase (reg_email carol_register) \<and>
   username alice \<noteq> reg_username carol_register \<and>
   status (fst (register [] (store_of alice [session_row (Some 100)]) carol_register)) = 201 \<and>
   map email (users (snd (register [] (store_of alice [session_row (Some 100)]) carol_register))) =
     [''a@x.com'', ''carol@x.com''] \<and>
   tokens (snd (register [] (store_of alice [session_row (Some 100)]) carol_register)) =
     [session_row (Some 100)]"
proof -
  have u: "\<forall>u \<in> set (users (store_of alice [session_row (Some 100)])).
             toLowerCase (email u) \<noteq> toLowerCase (reg_email carol_register) \<and>
             username u \<noteq> reg_username carol_register"
    by (simp add: store_of_def alice_def carol_register_def lower_examples)
  from register_creates_one_user_no_token [OF refl u] u show ?thesis
    by (auto simp: store_of_def alice_def carol_register_def lower_examples)
qed

section \<open>Login\<close>

lemma login_found:
  assumes "find (\<lambda>u. email u = toLowerCase (login_email body)) (users s) = Some u0"
  shows "login env [] s body =
    (let user2 = u0\<lparr>user_name := or_default (login_name body) (user_name u0),
                     imageUrl := or_default (login_imageUrl body) (imageUrl u0)\<rparr>;
         s1 = save_user s user2
     in if \<not> isActive user2 then (failure 403 ''Akun Anda telah dinonaktifkan'', s1)
        else
          let (user3, s2) = updateLastLogin (now_login env) s1 user2 in
          (case hasActiveSession (now_session env) s2 (user_id user3) of
             Some existingSession \<Rightarrow>
               (\<lparr>status = 409, success = False,
                 message = ''Anda sudah login di perangkat lain. Silakan logout terlebih dahulu atau tunggu hingga token expired (1 hari).'',
                 data = SessionData True (created_at existingSession)\<rparr>, s2)
           | None \<Rightarrow>
               let accessToken = generateAccessToken env user3 in
               (case createToken (zone env) (random_source env) (now_expiry env) (now_used env)
                       (now_created env) s2 user3 ''API Login'' [''*''] of
                  Inl e \<Rightarrow> (failure 500 ''Terjadi kesalahan server'', s2)
                | Inr (tokenRecord, s3) \<Rightarrow>
                    (\<lparr>status = 200, success = True, message = ''Login berhasil'',
                      data = LoginData (getProfile user3) (token tokenRecord) accessToken\<rparr>,
                     s3))))"
proof -
  let ?u1 = "case login_name body of
               Some n \<Rightarrow> if n \<noteq> [] \<and> n \<noteq> user_name u0 then u0\<lparr>user_name := n\<rparr> else u0
             | None \<Rightarrow> u0"
  have u2: "(case login_imageUrl body of
               Some i \<Rightarrow> if i \<noteq> [] \<and> i \<noteq> imageUrl ?u1 then ?u1\<lparr>imageUrl := i\<rparr> else ?u1
             | None \<Rightarrow> ?u1) =
            u0\<lparr>user_name := or_default (login_name body) (user_name u0),
               imageUrl := or_default (login_imageUrl body) (imageUrl u0)\<rparr>"
    by (simp add: or_default_def split: option.splits)
  show ?thesis
    by (simp only: login_def simp_thms if_False assms option.case Let_def u2)
qed

lemma touch_users:
  "map (\<lambda>x. if user_id x = k then x\<lparr>last_login_at := l\<rparr> else x)
     (map (\<lambda>x. if user_id x = k then x\<lparr>user_name := n, imageUrl := i\<rparr> else x) xs) =
   map (\<lambda>x. if user_id x = k then x\<lparr>user_name := n, imageUrl := i, last_login_at := l\<rparr> else x) xs"
  by (induction xs) simp_all

text \<open>
  Claim C10. Whenever \<open>login\<close> answers 409, the store it leaves behind has the user's row
  changed: a provided non-empty name and avatar are written and the last-login time is the
  clock reading of \<open>updateLastLogin\<close>. No token row is added or changed, and the response
  carries the creation time of an existing session row.
\<close>

theorem login_conflict_user_row_mutated:
  assumes run: "login env errors s body = (resp, s')" and conflict: "status resp = 409"
  shows "\<exists>u0 session.
           find (\<lambda>u. email u = toLowerCase (login_email body)) (users s) = Some u0 \<and>
           users s' =
             map (\<lambda>x. if user_id x = user_id u0
                       then x\<lparr>user_name := or_default (login_name body) (user_name u0),
                              imageUrl := or_default (login_imageUrl body) (imageUrl u0),
                              last_login_at := Some (now_login env)\<rparr>
                       else x) (users s) \<and>
           u0\<lparr>user_name := or_default (login_name body) (user_name u0),
              imageUrl := or_default (login_imageUrl body) (imageUrl u0),
              last_login_at := Some (now_login env)\<rparr> \<in> set (users s') \<and>
           tokens s' = tokens s \<and>
           session \<in> set (tokens s) \<and>
           resp = \<lparr>status = 409, success = False,
                   message = ''Anda sudah login di perangkat lain. Silakan logout terlebih dahulu atau tunggu hingga token expired (1 hari).'',
                   data = SessionData True (created_at session)\<rparr>"
proof -
  from run conflict have e: "errors = []"
    by (auto simp: login_def split: if_splits)
  from run conflict e obtain u0 where
    u0: "find (\<lambda>u. email u = toLowerCase (login_email body)) (users s) = Some u0"
    by (cases "find (\<lambda>u. email u = toLowerCase (login_email body)) (users s)")
       (auto simp: login_def failure_def)
  let ?n = "or_default (login_name body) (user_name u0)"
  let ?i = "or_default (login_imageUrl body) (imageUrl u0)"
  let ?u2 = "u0\<lparr>user_name := ?n, imageUrl := ?i\<rparr>"
  let ?s2 = "s\<lparr>users := map (\<lambda>x. if user_id x = user_id u0
                       then x\<lparr>user_name := ?n, imageUrl := ?i, last_login_at := Some (now_login env)\<rparr>
                       else x) (users s)\<rparr>"
  have upd: "updateLastLogin (now_login env) (save_user s ?u2) ?u2 =
      (?u2\<lparr>last_login_at := Some (now_login env)\<rparr>, ?s2)"
    by (simp add: updateLastLogin_def save_user_def touch_users del: map_map)
  note lf = login_found [OF u0, of env, unfolded Let_def upd prod.case]
  from run e have run': "login env [] s body = (resp, s')" by simp
  have act: "isActive ?u2"
  proof (rule ccontr)
    assume "\<not> isActive ?u2"
    with lf run' have "resp = failure 403 ''Akun Anda telah dinonaktifkan''" by simp
    with conflict show False by (simp add: failure_def)
  qed
  obtain session where h: "hasActiveSession (now_session env) ?s2 (user_id u0) = Some session"
  proof (cases "hasActiveSession (now_session env) ?s2 (user_id u0)")
    case None
    with lf run' act have "status resp = 500 \<or> status resp = 200"
      by (auto simp: failure_def split: sum.splits)
    with conflict show ?thesis by simp
  next
    case (Some session)
    with that show ?thesis by blast
  qed
  from lf run' act h have r: "resp = \<lparr>status = 409, success = False,
                   message = ''Anda sudah login di perangkat lain. Silakan logout terlebih dahulu atau tunggu hingga token expired (1 hari).'',
                   data = SessionData True (created_at session)\<rparr>"
    and s': "s' = ?s2"
    by simp_all
  from h have sm: "session \<in> set (tokens s)"
    using find_Some_mem [of _ "tokens ?s2" session] by (auto simp: hasActiveSession_def)
  from u0 have "u0 \<in> set (users s)" using find_Some_mem [of _ "users s" u0] by blast
  then have um: "u0\<lparr>user_name := ?n, imageUrl := ?i, last_login_at := Some (now_login env)\<rparr>
      \<in> set (users ?s2)"
    by (force simp: image_iff)
  from u0 s' um sm r show ?thesis
    by (intro exI [of _ u0] exI [of _ session]) simp
qed

lemma find_alice:
  "find (\<lambda>u. email u = toLowerCase (login_email alice_login)) (users (store_of alice rows)) = Some alice"
  by (simp add: alice_login_def lower_examples store_of_def alice_def)

lemma login_alice:
  "login login_env0 [] (store_of alice rows) alice_login =
     (case hasActiveSession 51
             (store_of (alice\<lparr>user_name := ''Alicia'', last_login_at := Some 50\<rparr>) rows) 1 of
        Some existingSession \<Rightarrow>
          (\<lparr>status = 409, success = False,
            message = ''Anda sudah login di perangkat lain. Silakan logout terlebih dahulu atau tunggu hingga token expired (1 hari).'',
            data = SessionData True (created_at existingSession)\<rparr>,
           store_of (alice\<lparr>user_name := ''Alicia'', last_login_at := Some 50\<rparr>) rows)
      | None \<Rightarrow>
          (case createToken utc_zone fixed_bytes 52 53 54
                  (store_of (alice\<lparr>user_name := ''Alicia'', last_login_at := Some 50\<rparr>) rows)
                  (alice\<lparr>user_name := ''Alicia'', last_login_at := Some 50\<rparr>) ''API Login'' [''*''] of
             Inl e \<Rightarrow> (failure 500 ''Terjadi kesalahan server'',
                       store_of (alice\<lparr>user_name := ''Alicia'', last_login_at := Some 50\<rparr>) rows)
           | Inr (tokenRecord, s3) \<Rightarrow>
               (\<lparr>status = 200, success = True, message = ''Login berhasil'',
                 data = LoginData (alice\<lparr>user_name := ''Alicia'', last_login_at := Some 50\<rparr>)
                          (token tokenRecord) ''jwt-of-alice''\<rparr>, s3)))"
  unfolding login_found [OF find_alice]
  by (simp add: Let_def login_env0_def alice_login_def or_default_def alice_def store_of_def
      save_user_def updateLastLogin_def isActive_def getProfile_def
      cong: option.case_cong sum.case_cong)

text \<open>A login with a new display name by a user whose session expires at 100, at clock readings 50 and 51: the answer is 409 and the user row is changed.\<close>

theorem login_conflict_user_row_mutated_witness:
  "login login_env0 [] (store_of alice [session_row (Some 100)]) alice_login =
     (\<lparr>status = 409, success = False,
       message = ''Anda sudah login di perangkat lain. Silakan logout terlebih dahulu atau tunggu hingga token expired (1 hari).'',
       data = SessionData True 0\<rparr>,
      store_of (alice\<lparr>user_name := ''Alicia'', last_login_at := Some 50\<rparr>) [session_row (Some 100)]) \<and>
   users (store_of (alice\<lparr>user_name := ''Alicia'', last_login_at := Some 50\<rparr>) [session_row (Some 100)]) =
     [alice\<lparr>user_name := ''Alicia'', last_login_at := Some 50\<rparr>] \<and>
   alice\<lparr>user_name := ''Alicia'', last_login_at := Some 50\<rparr> \<noteq> alice"
proof -
  have run: "login login_env0 [] (store_of alice [session_row (Some 100)]) alice_login =
     (\<lparr>status = 409, success = False,
       message = ''Anda sudah login di perangkat lain. Silakan logout terlebih dahulu atau tunggu hingga token expired (1 hari).'',
       data = SessionData True 0\<rparr>,
      store_of (alice\<lparr>user_name := ''Alicia'', last_login_at := Some 50\<rparr>) [session_row (Some 100)])"
    unfolding login_alice by (simp add: hasActiveSession_def store_of_def session_row_def)
  from login_conflict_user_row_mutated [OF run] run show ?thesis
    by (simp add: store_of_def alice_def)
qed

text \<open>
  Claim C2. The user holds a token row with no expiry, which \<open>isValid\<close> counts as live. The
  claim asks for a 409 answer and no new row; \<open>login\<close> answers 200 and the token table has
  a second row.
\<close>

theorem login_ignores_session_without_expiry:
  "isValid 51 (session_row None) \<and>
   status (fst (login login_env0 [] (store_of alice [session_row None]) alice_login)) = 200 \<and>
   map token (tokens (snd (login login_env0 [] (store_of alice [session_row None]) alice_login))) =
     [''abc'', fixed_token]"
  unfolding login_alice
  by (simp add: hasActiveSession_def store_of_def session_row_def isValid_def
      createToken_fixed fixed_token_def)

text \<open>
  Claim C9. A row of the user with no expiry set is live by the claim's definition and by
  \<open>isValid\<close>, but \<open>hasActiveSession\<close>, whose query compares \<open>expires_at\<close> with the clock,
  does not find it, so \<open>login\<close> is not rejected although a live token exists.
\<close>

theorem hasActiveSession_misses_token_without_expiry:
  "session_row None \<in> set (tokens (store_of alice [session_row None])) \<and>
   tokenable_id (session_row None) = user_id alice \<and>
   tokenable_type (session_row None) = user_type \<and>
   expires_at (session_row None) = None \<and>
   isValid 51 (session_row None) \<and>
   hasActiveSession 51 (store_of alice [session_row None]) (user_id alice) = None \<and>
   hasActiveSession 51 (store_of (alice\<lparr>user_name := ''Alicia'', last_login_at := Some 50\<rparr>)
      [session_row None]) 1 = None \<and>
   success (fst (login login_env0 [] (store_of alice [session_row None]) alice_login))"
  unfolding login_alice
  by (simp add: hasActiveSession_def store_of_def session_row_def isValid_def
      createToken_fixed fixed_token_def alice_def)

section \<open>Deactivated accounts\<close>

lemma find_inactive_alice:
  "find (\<lambda>u. email u = toLowerCase (login_email alice_login))
     (users (store_of (alice\<lparr>active := False\<rparr>) rows)) = Some (alice\<lparr>active := False\<rparr>)"
  by (simp add: alice_login_def lower_examples store_of_def alice_def)

text \<open>
  Claim C6. For a token that exists and is unexpired and whose user exists with the active
  flag false, the claim asks for a forbidden (403) answer. \<open>authenticate\<close> answers 401 with
  the message that the account is deactivated, whereas \<open>login\<close> answers 403 for the same
  deactivated user.
\<close>

theorem authenticate_inactive_is_401:
  "fst (authenticate no_jwt 50 51 52 (store_of (alice\<lparr>active := False\<rparr>) [session_row (Some 100)])
          (bearer ''abc'')) =
     Reject (failure 401 ''Akun telah dinonaktifkan. Silakan hubungi admin.'') \<and>
   fst (login login_env0 [] (store_of (alice\<lparr>active := False\<rparr>) [session_row (Some 100)]) alice_login) =
     failure 403 ''Akun Anda telah dinonaktifkan''"
  unfolding login_found [OF find_inactive_alice]
  by (simp add: fixtures findOne_token_def findByPk_def isValid_def isActive_def
      jwt_structure_check_def authenticate_def startsWith_def substring_def update_last_used_def Let_def)

end
